theory Spec2Isabelle
  imports Main "HOL-Library.AList"
begin

section \<open>Characters and strings\<close>

text \<open>
  A Python \<open>str\<close> is modelled as a \<open>string\<close>; a \<open>char\<close> stands for the code point of the
  same number (0 to 255). \<open>isdigit\<close> is \<open>str.isdigit\<close> on that range: the ASCII digits and
  the superscripts U+00B2, U+00B3 and U+00B9. \<open>isspace\<close> is the set of characters that
  \<open>str.strip()\<close> removes on that range: U+0009 to U+000D, U+001C to U+0020, U+0085 and
  U+00A0. Code points above 255 are outside the model.
\<close>

definition isdigit :: "char \<Rightarrow> bool" where
  "isdigit c =
     (let n = (of_char c :: nat)
      in (48 \<le> n \<and> n \<le> 57) \<or> n = 178 \<or> n = 179 \<or> n = 185)"

definition isspace :: "char \<Rightarrow> bool" where
  "isspace c =
     (let n = (of_char c :: nat)
      in (9 \<le> n \<and> n \<le> 13) \<or> (28 \<le> n \<and> n \<le> 32) \<or> n = 133 \<or> n = 160)"

definition strip :: "string \<Rightarrow> string" where
  "strip s = rev (dropWhile isspace (rev (dropWhile isspace s)))"

definition startswith :: "string \<Rightarrow> string \<Rightarrow> bool" where
  "startswith s p = (take (length p) s = p)"

text \<open>\<open>s.split(sep)\<close> for a one-character separator: one more part than separators.\<close>

fun split :: "char \<Rightarrow> string \<Rightarrow> string list" where
  "split sep [] = [[]]"
| "split sep (c # cs) =
     (if c = sep then [] # split sep cs
      else (case split sep cs of
              [] \<Rightarrow> [[c]]
            | p # ps \<Rightarrow> (c # p) # ps))"

section \<open>Time\<close>

text \<open>
  A naive \<open>datetime\<close> is the number of microseconds on the local time line, a
  \<open>timedelta\<close> a number of microseconds. \<open>strftime('%Y-%m-%d %H:%M:%S')\<close> drops the
  microseconds, and \<open>strptime\<close> with the same format reads back the datetime of that whole
  second, so a formatted time is modelled as the datetime truncated to the second.
  \<open>isoformat()\<close> keeps the microseconds and is modelled as the datetime itself.
  The range of \<open>datetime\<close> (years 1 to 9999) is not modelled.
\<close>

type_synonym datetime = int

definition timedelta_hours :: "int \<Rightarrow> int" where
  "timedelta_hours h = h * 3600000000"

definition strftime :: "datetime \<Rightarrow> datetime" where
  "strftime t = t - t mod 1000000"

section \<open>WhatsAppChecker\<close>

subsection \<open>clean\_phone\_number\<close>

text \<open>
  Lines 88 to 104. On a \<open>str\<close> no statement of the \<open>try\<close> block raises, so the
  \<open>except: return None\<close> branch is never taken and the model returns \<open>Some\<close> always; the
  result type keeps the \<open>None\<close> that the callers test for.
\<close>

definition clean_phone_number :: "string \<Rightarrow> string option" where
  "clean_phone_number phone0 =
     (let phone = strip phone0;
          phone = (if startswith phone ''0'' then ''+234'' @ drop 1 phone
                   else if startswith phone ''234'' then ''+'' @ phone
                   else if \<not> startswith phone ''+'' then ''+'' @ phone
                   else phone);
          digits = filter (\<lambda>c. isdigit c \<or> c = CHR ''+'') phone
      in Some digits)"

subsection \<open>The verification call\<close>

datatype exn = IndexError

text \<open>
  Lines 106 to 139, the shipped backend: \<open>phone[-1]\<close> raises IndexError on the empty
  string; otherwise the answer depends on the last character only.
\<close>

definition check_with_api :: "string \<Rightarrow> exn + string" where
  "check_with_api phone =
     (if phone = [] then Inl IndexError
      else if last phone \<in> set ''02468'' then Inr ''on_whatsapp''
      else Inr ''not_on_whatsapp'')"

text \<open>
  What \<open>import pywhatkit\<close> does at line 74 is decided by the host: the module loads, the
  import raises ImportError, or the import raises some other exception.
\<close>

datatype import_outcome = Imported | ImportError | ImportRaises

text \<open>
  Lines 62 to 86. \<open>not clean_phone\<close> holds for \<open>None\<close> and for the empty string. Both
  import branches make the same call; every other exception is caught and gives
  \<open>error\<close>.
\<close>

definition check_number :: "import_outcome \<Rightarrow> string \<Rightarrow> string" where
  "check_number imp phone_number =
     (case clean_phone_number phone_number of
        None \<Rightarrow> ''invalid''
      | Some clean_phone \<Rightarrow>
          if clean_phone = [] then ''invalid''
          else (case imp of
                  ImportRaises \<Rightarrow> ''error''
                | _ \<Rightarrow> (case check_with_api clean_phone of
                          Inl e \<Rightarrow> ''error''
                        | Inr status \<Rightarrow> status)))"

section \<open>DataStore\<close>

text \<open>
  A value of \<open>checked_numbers\<close> is the dict built at lines 151 to 156. The two dicts of
  the store are association lists in insertion order with distinct keys:
  \<open>AList.update\<close> replaces the value of a key in place and appends a new key at the end,
  as assignment to a dict item does, and \<open>length\<close> is \<open>len\<close>.
\<close>

record status_record =
  status :: string
  last_check :: datetime
  next_retry :: "datetime option"
  attempts :: int

record user_record =
  user_last_check :: datetime
  total_checked :: int

record data_store =
  checked_numbers :: "(string \<times> status_record) list"
  user_data :: "(string \<times> user_record) list"

definition DataStore :: data_store where
  "DataStore = \<lparr>checked_numbers = [], user_data = []\<rparr>"

text \<open>
  The program's state: the module-level \<open>store\<close> and the content of \<open>data.json\<close>
  (\<open>None\<close> while the file does not exist). Writing the file is taken to succeed.
\<close>

record world =
  store :: data_store
  data_json :: "data_store option"

definition save_to_file :: "world \<Rightarrow> world" where
  "save_to_file w = w\<lparr>data_json := Some (store w)\<rparr>"

text \<open>
  Lines 43 to 51. What \<open>open\<close> and \<open>json.load\<close> do is an input: they raise, or they
  return the parsed document. A document that is a JSON object has or lacks each of the
  two top-level keys; on any other JSON value \<open>data.get\<close> raises AttributeError.
\<close>

datatype load_exn = FileNotFoundError | PermissionError | JSONDecodeError | AttributeError

datatype json_document =
  JObject "(string \<times> status_record) list option" "(string \<times> user_record) list option"
| JOther

definition load_from_file :: "data_store \<Rightarrow> load_exn + json_document \<Rightarrow> load_exn + data_store" where
  "load_from_file self rd =
     (case rd of
        Inl e \<Rightarrow> (if e = FileNotFoundError then Inr self else Inl e)
      | Inr JOther \<Rightarrow> Inl AttributeError
      | Inr (JObject cn ud) \<Rightarrow>
          Inr \<lparr>checked_numbers = (case cn of None \<Rightarrow> [] | Some m \<Rightarrow> m),
               user_data = (case ud of None \<Rightarrow> [] | Some m \<Rightarrow> m)\<rparr>)"

text \<open>Lines 54 and 55, run when the module is loaded.\<close>

definition startup :: "load_exn + json_document \<Rightarrow> load_exn + data_store" where
  "startup rd = load_from_file DataStore rd"

subsection \<open>update\_status\<close>

text \<open>\<open>store.checked_numbers.get(phone, {}).get('attempts', 0)\<close> of line 155.\<close>

definition attempts_of :: "data_store \<Rightarrow> string \<Rightarrow> int" where
  "attempts_of s phone =
     (case map_of (checked_numbers s) phone of None \<Rightarrow> 0 | Some r \<Rightarrow> attempts r)"

text \<open>
  Lines 143 to 160; \<open>now\<close> is the value that \<open>datetime.now()\<close> returns at line 145.
  The status is any string, as in the source.
\<close>

definition update_status :: "world \<Rightarrow> string \<Rightarrow> string \<Rightarrow> int \<Rightarrow> datetime \<Rightarrow> world" where
  "update_status w phone st retry_hours now =
     (let nr = (if st = ''not_on_whatsapp''
                then Some (now + timedelta_hours retry_hours) else None);
          cn = AList.update phone
                 \<lparr>status = st, last_check = now, next_retry = nr,
                  attempts = attempts_of (store w) phone + 1\<rparr>
                 (checked_numbers (store w));
          w1 = w\<lparr>store := (store w)\<lparr>checked_numbers := cn\<rparr>\<rparr>
      in if length cn mod 10 = 0 then save_to_file w1 else w1)"

text \<open>A sequence of calls \<open>(phone, status, retry_hours, now)\<close>, in order.\<close>

fun update_all :: "world \<Rightarrow> (string \<times> string \<times> int \<times> datetime) list \<Rightarrow> world" where
  "update_all w [] = w"
| "update_all w ((phone, st, h, now) # cs) = update_all (update_status w phone st h now) cs"

section \<open>The batch run\<close>

text \<open>
  Lines 219 to 225 of \<open>process_numbers\<close>: the parts of the text that reach a batch.
\<close>

definition extract_numbers :: "string \<Rightarrow> string list" where
  "extract_numbers numbers_text =
     concat (map (\<lambda>line. filter (\<lambda>part. part \<noteq> [] \<and> list_ex isdigit part)
                           (map strip (split (CHR '','') line)))
                 (split (CHR 0x0A) numbers_text))"

text \<open>
  A result dict of lines 275 to 284; the key \<open>next_retry\<close> is absent when
  \<open>result_next_retry\<close> is \<open>None\<close>. Both times are \<open>strftime\<close> strings.
\<close>

record check_result =
  phone :: string
  result_status :: string
  check_time :: datetime
  result_next_retry :: "datetime option"

text \<open>
  The host during a batch: what each call of \<open>datetime.now()\<close> returns while item \<open>i\<close> is
  processed (line 145 inside \<open>update_status\<close>, line 278, line 283), what it returns at
  line 310, and what the import at line 74 does for item \<open>i\<close>.
\<close>

record env =
  upsert_now :: "nat \<Rightarrow> datetime"
  check_now :: "nat \<Rightarrow> datetime"
  retry_now :: "nat \<Rightarrow> datetime"
  finish_now :: datetime
  pywhatkit :: "nat \<Rightarrow> import_outcome"

text \<open>
  Lines 272 to 284, the result dict of item \<open>i\<close> with status \<open>st\<close>.
  \<open>clean_num_of\<close> is \<open>checker.clean_phone_number(number) or number\<close>.
\<close>

definition clean_num_of :: "string \<Rightarrow> string" where
  "clean_num_of number =
     (case clean_phone_number number of
        None \<Rightarrow> number
      | Some c \<Rightarrow> if c = [] then number else c)"

definition build_result :: "env \<Rightarrow> int \<Rightarrow> nat \<Rightarrow> string \<Rightarrow> string \<Rightarrow> check_result" where
  "build_result e retry_hours i number st =
     \<lparr>phone = clean_num_of number,
      result_status = st,
      check_time = strftime (check_now e i),
      result_next_retry =
        (if st = ''not_on_whatsapp''
         then Some (strftime (retry_now e i + timedelta_hours retry_hours))
         else None)\<rparr>"

text \<open>
  The loop of lines 265 to 302, \<open>i\<close> counting from 1 as \<open>enumerate\<close> does. The progress
  message and the sleeps touch neither the store nor the results and are left out.
\<close>

fun check_loop :: "env \<Rightarrow> int \<Rightarrow> nat \<Rightarrow> world \<Rightarrow> string list \<Rightarrow> world \<times> check_result list" where
  "check_loop e retry_hours i w [] = (w, [])"
| "check_loop e retry_hours i w (number # rest) =
     (let st = check_number (pywhatkit e i) number;
          w1 = update_status w number st retry_hours (upsert_now e i);
          result = build_result e retry_hours i number st;
          (w2, results) = check_loop e retry_hours (Suc i) w1 rest
      in (w2, result # results))"

text \<open>
  The text of the message at lines 243 to 251: \<open>/skip\<close> in any case, a text that \<open>int\<close>
  reads, or a text on which \<open>int\<close> raises ValueError.
\<close>

datatype message_text = Skip | Number int | NotANumber

definition retry_hours_of :: "message_text \<Rightarrow> int option" where
  "retry_hours_of m =
     (case m of
        Skip \<Rightarrow> Some 24
      | Number n \<Rightarrow> if 1 \<le> n \<and> n \<le> 168 then Some n else None
      | NotANumber \<Rightarrow> None)"

datatype handler_result =
  SETTING_RETRY_TIME
| END_no_numbers
| END_checked "check_result list" int

text \<open>
  Lines 239 to 337: \<open>user_id\<close> is \<open>str(update.effective_user.id)\<close>, \<open>numbers\<close> is
  \<open>context.user_data['numbers_to_check']\<close> (the empty list when the key is absent).
\<close>

definition set_retry_and_check ::
    "env \<Rightarrow> world \<Rightarrow> string \<Rightarrow> message_text \<Rightarrow> string list \<Rightarrow> world \<times> handler_result" where
  "set_retry_and_check e w user_id m numbers =
     (case retry_hours_of m of
        None \<Rightarrow> (w, SETTING_RETRY_TIME)
      | Some retry_hours \<Rightarrow>
          if numbers = [] then (w, END_no_numbers)
          else (let (w1, results) = check_loop e retry_hours 1 w numbers;
                    ud = AList.update user_id
                           \<lparr>user_last_check = finish_now e,
                            total_checked = int (length numbers)\<rparr>
                           (user_data (store w1));
                    w2 = w1\<lparr>store := (store w1)\<lparr>user_data := ud\<rparr>\<rparr>
                in (save_to_file w2, END_checked results retry_hours)))"

section \<open>Filter and export\<close>

text \<open>
  Lines 484 to 516: \<open>filter_type\<close> and \<open>combo_type\<close> are the session's
  \<open>current_filter\<close> and \<open>combo_filter\<close> (the empty string when unset).
\<close>

definition apply_filter :: "string \<Rightarrow> string \<Rightarrow> datetime \<Rightarrow> check_result list \<Rightarrow> check_result list" where
  "apply_filter filter_type combo_type now results =
     (if filter_type = ''on'' then
        filter (\<lambda>r. result_status r = ''on_whatsapp'') results
      else if filter_type = ''off'' then
        filter (\<lambda>r. result_status r = ''not_on_whatsapp'') results
      else if filter_type = ''retry'' then
        filter (\<lambda>r. case result_next_retry r of None \<Rightarrow> False | Some t \<Rightarrow> t > now) results
      else if combo_type \<noteq> [] then
        (if combo_type = ''both_and'' then
           filter (\<lambda>r. result_status r = ''not_on_whatsapp'' \<and>
                        (case result_next_retry r of None \<Rightarrow> True | Some t \<Rightarrow> t > now)) results
         else if combo_type = ''both_or'' then
           filter (\<lambda>r. result_status r = ''not_on_whatsapp'' \<or>
                        (case result_next_retry r of None \<Rightarrow> True | Some t \<Rightarrow> t > now)) results
         else results)
      else results)"

text \<open>
  Lines 526 to 534. \<open>pd.DataFrame\<close> of a list of dicts has one column per key, in the
  order in which the keys first appear, and one row per dict, with NaN where a dict lacks
  the key; \<open>to_csv(index=False)\<close> writes the column names as the header row and NaN as
  the empty field. The table is modelled before it is written as text.
\<close>

datatype cell = Str string | Time datetime | NaN

definition keys :: "check_result \<Rightarrow> string list" where
  "keys r = [''phone'', ''status'', ''check_time''] @
            (case result_next_retry r of None \<Rightarrow> [] | Some t \<Rightarrow> [''next_retry''])"

definition get_cell :: "check_result \<Rightarrow> string \<Rightarrow> cell" where
  "get_cell r k =
     (if k = ''phone'' then Str (phone r)
      else if k = ''status'' then Str (result_status r)
      else if k = ''check_time'' then Time (check_time r)
      else if k = ''next_retry'' then
        (case result_next_retry r of None \<Rightarrow> NaN | Some t \<Rightarrow> Time t)
      else NaN)"

fun add_keys :: "string list \<Rightarrow> string list \<Rightarrow> string list" where
  "add_keys cols [] = cols"
| "add_keys cols (k # ks) = add_keys (if k \<in> set cols then cols else cols @ [k]) ks"

definition columns :: "check_result list \<Rightarrow> string list" where
  "columns rs = foldl add_keys [] (map keys rs)"

record csv =
  header :: "string list"
  rows :: "cell list list"

definition to_csv :: "check_result list \<Rightarrow> csv" where
  "to_csv rs = \<lparr>header = columns rs, rows = map (\<lambda>r. map (get_cell r) (columns rs)) rs\<rparr>"

datatype export_outcome = No_results | No_match | Document csv

text \<open>Lines 485 to 516: what is exported, \<open>export_all\<close> skipping the filter.\<close>

definition results_to_export ::
    "bool \<Rightarrow> string \<Rightarrow> string \<Rightarrow> datetime \<Rightarrow> check_result list \<Rightarrow> check_result list" where
  "results_to_export export_all filter_type combo_type now results =
     (if \<not> export_all then apply_filter filter_type combo_type now results else results)"

definition export_results ::
    "bool \<Rightarrow> string \<Rightarrow> string \<Rightarrow> datetime \<Rightarrow> check_result list \<Rightarrow> export_outcome" where
  "export_results export_all filter_type combo_type now results =
     (if results = [] then No_results
      else if results_to_export export_all filter_type combo_type now results = [] then No_match
      else Document (to_csv (results_to_export export_all filter_type combo_type now results)))"

section \<open>Example runs\<close>

text \<open>A first start: nothing checked yet and no \<open>data.json\<close>.\<close>

definition world0 :: world where
  "world0 = \<lparr>store = DataStore, data_json = None\<rparr>"

text \<open>
  A host whose clock is read just before, at and just after each whole second, where
  \<open>pywhatkit\<close> is not installed, and where the import raises another exception while
  the second item is checked.
\<close>

definition env0 :: env where
  "env0 = \<lparr>upsert_now = (\<lambda>i. int i * 1000000 - 1),
           check_now = (\<lambda>i. int i * 1000000),
           retry_now = (\<lambda>i. int i * 1000000 + 2),
           finish_now = 100000000,
           pywhatkit = (\<lambda>i. if i = 2 then ImportRaises else ImportError)\<rparr>"

text \<open>Results of mixed status, two of them with a retry time.\<close>

definition results0 :: "check_result list" where
  "results0 =
     [\<lparr>phone = ''+2348012345678'', result_status = ''on_whatsapp'',
       check_time = 1000000, result_next_retry = None\<rparr>,
      \<lparr>phone = ''+2348023456789'', result_status = ''not_on_whatsapp'',
       check_time = 2000000, result_next_retry = Some 90000000\<rparr>,
      \<lparr>phone = ''+2348023456781'', result_status = ''not_on_whatsapp'',
       check_time = 3000000, result_next_retry = Some 20000000\<rparr>,
      \<lparr>phone = ''+2348012345670'', result_status = ''error'',
       check_time = 4000000, result_next_retry = None\<rparr>]"

section \<open>Normalisation\<close>

lemma isspace_not_kept: "isspace c \<Longrightarrow> \<not> (isdigit c \<or> c = CHR ''+'')"
  by (auto simp: isspace_def isdigit_def Let_def)

lemma branch_plus:
  "\<exists>t. (if startswith s ''0'' then ''+234'' @ drop 1 s
        else if startswith s ''234'' then ''+'' @ s
        else if \<not> startswith s ''+'' then ''+'' @ s
        else s) = CHR ''+'' # t"
  by (cases s) (simp_all add: startswith_def)

text \<open>Every result is a plus sign followed by kept characters.\<close>

lemma clean_plus:
  "\<exists>t. clean_phone_number x = Some (CHR ''+'' # filter (\<lambda>c. isdigit c \<or> c = CHR ''+'') t)"
proof -
  obtain t where
    "(if startswith (strip x) ''0'' then ''+234'' @ drop 1 (strip x)
      else if startswith (strip x) ''234'' then ''+'' @ strip x
      else if \<not> startswith (strip x) ''+'' then ''+'' @ strip x
      else strip x) = CHR ''+'' # t"
    using branch_plus by blast
  then have "clean_phone_number x = Some (CHR ''+'' # filter (\<lambda>c. isdigit c \<or> c = CHR ''+'') t)"
    unfolding clean_phone_number_def Let_def by simp
  then show ?thesis by blast
qed

lemma strip_id:
  assumes "s \<noteq> []" "\<not> isspace (hd s)" "\<not> isspace (last s)"
  shows "strip s = s"
proof -
  from assms have 1: "dropWhile isspace s = s" by (cases s) auto
  from assms have "rev s \<noteq> []" "\<not> isspace (hd (rev s))" by (auto simp: hd_rev)
  then have 2: "dropWhile isspace (rev s) = rev s" by (cases "rev s") auto
  show ?thesis by (simp add: strip_def 1 2)
qed

lemma clean_fixpoint:
  assumes "\<forall>c\<in>set u. isdigit c \<or> c = CHR ''+''"
  shows "clean_phone_number (CHR ''+'' # u) = Some (CHR ''+'' # u)"
proof -
  let ?r = "CHR ''+'' # u"
  have "last ?r \<in> set ?r" by (rule last_in_set) simp
  with assms have "isdigit (last ?r) \<or> last ?r = CHR ''+''" by auto
  then have "\<not> isspace (last ?r)" using isspace_not_kept by blast
  moreover have "\<not> isspace (hd ?r)" using isspace_not_kept by auto
  ultimately have s: "strip ?r = ?r" by (intro strip_id) simp_all
  have f: "filter (\<lambda>c. isdigit c \<or> c = CHR ''+'') ?r = ?r"
    using assms by (simp add: filter_id_conv)
  show ?thesis
    unfolding clean_phone_number_def s Let_def
    using f by (simp add: startswith_def)
qed

lemmas normalize_defs =
  clean_phone_number_def strip_def startswith_def isspace_def isdigit_def Let_def

text \<open>
  C5. Normalisation is idempotent: for every raw string, cleaning the string that
  \<open>clean_phone_number\<close> returned gives that string again. This covers canonical numbers,
  numbers with a leading trunk zero and strings without any digit.
\<close>

theorem clean_phone_number_idempotent:
  "Option.bind (clean_phone_number x) clean_phone_number = clean_phone_number x"
proof -
  obtain t where r:
    "clean_phone_number x = Some (CHR ''+'' # filter (\<lambda>c. isdigit c \<or> c = CHR ''+'') t)"
    using clean_plus by blast
  show ?thesis
    unfolding r by (simp add: clean_fixpoint)
qed

theorem clean_phone_number_idempotent_witness:
  "Option.bind (clean_phone_number '' 0801 234-5678 '') clean_phone_number
     = Some ''+2348012345678''"
  using clean_phone_number_idempotent [of "'' 0801 234-5678 ''"]
  by (simp add: normalize_defs)

lemma check_number_not_invalid: "check_number imp x \<noteq> ''invalid''"
proof -
  obtain t where
    "clean_phone_number x = Some (CHR ''+'' # filter (\<lambda>c. isdigit c \<or> c = CHR ''+'') t)"
    using clean_plus by blast
  then show ?thesis
    by (cases imp) (simp_all add: check_number_def check_with_api_def)
qed

lemma check_number_ImportRaises: "check_number ImportRaises x = ''error''"
proof -
  obtain t where
    "clean_phone_number x = Some (CHR ''+'' # filter (\<lambda>c. isdigit c \<or> c = CHR ''+'') t)"
    using clean_plus by blast
  then show ?thesis
    by (simp add: check_number_def)
qed

lemma dropWhile_keeps: "c \<in> set s \<Longrightarrow> \<not> P c \<Longrightarrow> c \<in> set (dropWhile P s)"
  by (induction s) auto

lemma strip_keeps: "c \<in> set s \<Longrightarrow> \<not> isspace c \<Longrightarrow> c \<in> set (strip s)"
  by (simp add: strip_def dropWhile_keeps)

lemma isdigit_not_space: "isdigit c \<Longrightarrow> \<not> isspace c"
  using isspace_not_kept by blast

text \<open>A digit of the input survives: the result of an input with a digit has a digit.\<close>

lemma clean_keeps_digit:
  assumes "list_ex isdigit x"
  shows "\<exists>r. clean_phone_number x = Some r \<and> list_ex isdigit r"
proof -
  from assms obtain d where d: "d \<in> set x" "isdigit d" by (auto simp: list_ex_iff)
  then have ds: "d \<in> set (strip x)" by (simp add: strip_keeps isdigit_not_space)
  have two: "isdigit (CHR ''2'')" by (simp add: isdigit_def)
  show ?thesis
  proof (cases "startswith (strip x) ''0''")
    case True
    then show ?thesis using two
      by (auto simp: clean_phone_number_def Let_def list_ex_iff)
  next
    case False
    then show ?thesis using ds d(2)
      by (auto simp: clean_phone_number_def Let_def list_ex_iff)
  qed
qed

lemma extract_numbers_digit: "part \<in> set (extract_numbers text) \<Longrightarrow> list_ex isdigit part"
  by (auto simp: extract_numbers_def)

text \<open>
  C1 (as stated). The claim fails at the input \<open>abc\<close>: the result of
  \<open>clean_phone_number\<close> is the string \<open>+\<close>, which has no digit and is not an invalid
  marker, and \<open>check_number\<close> calls the backend, which answers \<open>not_on_whatsapp\<close>.
\<close>

theorem clean_phone_number_no_digit_counterexample:
  "clean_phone_number ''abc'' = Some ''+''
   \<and> \<not> list_ex isdigit ''+''
   \<and> check_number Imported ''abc'' = ''not_on_whatsapp''"
  by code_simp

text \<open>
  C1 (amended). For every raw string \<open>clean_phone_number\<close> returns, without raising, a
  non-empty string that starts with a plus sign and holds only digits and plus signs. When
  that result has no digit it is made of plus signs only, and \<open>check_number\<close> calls the
  backend on it, which answers \<open>not_on_whatsapp\<close> (or gives \<open>error\<close> when the import
  raises). \<open>check_number\<close> never returns \<open>invalid\<close> on a string. Inputs without a digit
  are screened out before a batch: every part that \<open>process_numbers\<close> keeps has a digit,
  and so has its cleaned form.
\<close>

theorem clean_phone_number_never_invalid:
  "\<exists>r. clean_phone_number x = Some r \<and> r \<noteq> [] \<and> hd r = CHR ''+''
       \<and> list_all (\<lambda>c. isdigit c \<or> c = CHR ''+'') r
       \<and> (\<not> list_ex isdigit r \<longrightarrow>
             list_all (\<lambda>c. c = CHR ''+'') r
           \<and> check_number imp x = (if imp = ImportRaises then ''error'' else ''not_on_whatsapp''))
       \<and> check_number imp x \<noteq> ''invalid''
       \<and> (\<forall>part \<in> set (extract_numbers text).
             \<exists>r'. clean_phone_number part = Some r' \<and> list_ex isdigit r')"
proof -
  obtain t where r:
    "clean_phone_number x = Some (CHR ''+'' # filter (\<lambda>c. isdigit c \<or> c = CHR ''+'') t)"
    using clean_plus by blast
  let ?r = "CHR ''+'' # filter (\<lambda>c. isdigit c \<or> c = CHR ''+'') t"
  have kept: "list_all (\<lambda>c. isdigit c \<or> c = CHR ''+'') ?r"
    by (simp add: list_all_iff)
  have nodigit: "list_all (\<lambda>c. c = CHR ''+'') ?r
           \<and> check_number imp x = (if imp = ImportRaises then ''error'' else ''not_on_whatsapp'')"
    if nd: "\<not> list_ex isdigit ?r"
  proof -
    from nd kept have plus: "list_all (\<lambda>c. c = CHR ''+'') ?r"
      by (auto simp: list_all_iff list_ex_iff)
    have "last ?r \<in> set ?r" by (rule last_in_set) simp
    with plus have "last ?r = CHR ''+''" unfolding list_all_iff by blast
    then have "check_with_api ?r = Inr ''not_on_whatsapp''"
      by (simp add: check_with_api_def)
    then have "check_number imp x = (if imp = ImportRaises then ''error'' else ''not_on_whatsapp'')"
      using r by (cases imp) (simp_all add: check_number_def)
    with plus show ?thesis by blast
  qed
  have gate: "\<forall>part \<in> set (extract_numbers text).
             \<exists>r'. clean_phone_number part = Some r' \<and> list_ex isdigit r'"
    using extract_numbers_digit clean_keeps_digit by blast
  show ?thesis
    using r kept nodigit gate check_number_not_invalid [of imp x] by simp
qed

theorem clean_phone_number_never_invalid_witness:
  "clean_phone_number '' - '' = Some ''+''
   \<and> check_number ImportError '' - '' = ''not_on_whatsapp''
   \<and> extract_numbers ''abc, 0801 2'' = [''0801 2'']
   \<and> (\<exists>r'. clean_phone_number ''0801 2'' = Some r' \<and> list_ex isdigit r')"
proof -
  have c: "clean_phone_number '' - '' = Some ''+''" by code_simp
  have nd: "\<not> list_ex isdigit ''+''" by code_simp
  have ex: "extract_numbers ''abc, 0801 2'' = [''0801 2'']" by code_simp
  from clean_phone_number_never_invalid [of "'' - ''" ImportError "''abc, 0801 2''"]
  show ?thesis
    unfolding c ex using nd by auto
qed

section \<open>update\_status\<close>

lemma store_update_status:
  "checked_numbers (store (update_status w q st h now)) =
     AList.update q
       \<lparr>status = st, last_check = now,
        next_retry = (if st = ''not_on_whatsapp'' then Some (now + timedelta_hours h) else None),
        attempts = attempts_of (store w) q + 1\<rparr>
       (checked_numbers (store w))"
  by (simp add: update_status_def save_to_file_def Let_def)

lemma lookup_update_status:
  "map_of (checked_numbers (store (update_status w q st h now))) p =
     (if q = p
      then Some \<lparr>status = st, last_check = now,
                 next_retry = (if st = ''not_on_whatsapp''
                               then Some (now + timedelta_hours h) else None),
                 attempts = attempts_of (store w) p + 1\<rparr>
      else map_of (checked_numbers (store w)) p)"
  by (simp add: store_update_status update_conv')

lemma attempts_update_status:
  "attempts_of (store (update_status w q st h now)) p =
     attempts_of (store w) p + (if q = p then 1 else 0)"
  by (simp add: attempts_of_def lookup_update_status)

lemma attempts_update_all:
  "attempts_of (store (update_all w cs)) p =
     attempts_of (store w) p + int (length (filter (\<lambda>c. fst c = p) cs))"
  by (induction w cs rule: update_all.induct) (simp_all add: attempts_update_status)

lemma present_update_all:
  "map_of (checked_numbers (store (update_all w cs))) p = None
     \<longleftrightarrow> filter (\<lambda>c. fst c = p) cs = [] \<and> map_of (checked_numbers (store w)) p = None"
  by (induction w cs rule: update_all.induct) (auto simp: lookup_update_status)

text \<open>
  C4. Every call of \<open>update_status\<close> adds exactly 1 to the attempts of its own key (which
  count as 0 while the key is absent) and leaves the attempts of every other key as they
  are. So, from a store without the key, after any sequence of calls the key is still
  absent if none of them was for it, and otherwise its \<open>attempts\<close> field is the number of
  calls made for it, however the calls for other keys are interleaved.
\<close>

theorem update_status_attempts:
  "attempts_of (store (update_status w' q st h now)) p
     = attempts_of (store w') p + (if q = p then 1 else 0)
   \<and> (map_of (checked_numbers (store w)) p = None \<longrightarrow>
        (let k = length (filter (\<lambda>c. fst c = p) cs);
             m = map_of (checked_numbers (store (update_all w cs)))
         in if k = 0 then m p = None
            else \<exists>r. m p = Some r \<and> attempts r = int k))"
proof (intro conjI impI)
  show "attempts_of (store (update_status w' q st h now)) p
     = attempts_of (store w') p + (if q = p then 1 else 0)"
    by (rule attempts_update_status)
next
  assume absent: "map_of (checked_numbers (store w)) p = None"
  let ?k = "length (filter (\<lambda>c. fst c = p) cs)"
  let ?m = "map_of (checked_numbers (store (update_all w cs)))"
  have a: "attempts_of (store (update_all w cs)) p = int ?k"
    using absent by (simp add: attempts_update_all) (simp add: attempts_of_def)
  show "let k = ?k; m = ?m
        in if k = 0 then m p = None else \<exists>r. m p = Some r \<and> attempts r = int k"
  proof (cases "?k = 0")
    case True
    then show ?thesis using absent by (simp add: present_update_all)
  next
    case False
    then have "?m p \<noteq> None" by (simp add: present_update_all)
    then obtain r where r: "?m p = Some r" by blast
    with a have "attempts r = int ?k" by (simp add: attempts_of_def)
    with r False show ?thesis by (simp add: Let_def)
  qed
qed

theorem update_status_attempts_witness:
  "\<exists>r. map_of (checked_numbers (store (update_all world0
            [(''+2348012345678'', ''on_whatsapp'', 24, 5),
             (''+2348023456789'', ''not_on_whatsapp'', 24, 6),
             (''+2348012345678'', ''error'', 24, 7)]))) ''+2348012345678'' = Some r
       \<and> attempts r = 2"
proof -
  let ?cs = "[(''+2348012345678'', ''on_whatsapp'', 24, 5),
              (''+2348023456789'', ''not_on_whatsapp'', 24, 6),
              (''+2348012345678'', ''error'', 24 :: int, 7 :: int)]"
  have absent: "map_of (checked_numbers (store world0)) ''+2348012345678'' = None"
    by (simp add: world0_def DataStore_def)
  have k: "length (filter (\<lambda>c. fst c = ''+2348012345678'') ?cs) = 2"
    by simp
  from update_status_attempts [of world0 "''+2348012345678''" "''on_whatsapp''" 24 5
         "''+2348012345678''" world0 ?cs]
  show ?thesis
    unfolding k Let_def using absent by simp
qed

lemma data_json_update_status:
  "data_json (update_status w q st h now) =
     (if length (checked_numbers (store (update_status w q st h now))) mod 10 = 0
      then Some (store (update_status w q st h now))
      else data_json w)"
  by (simp add: update_status_def save_to_file_def Let_def)

lemma single_key_no_flush:
  assumes "data_json w = None"
    and "checked_numbers (store w) = [] \<or> (\<exists>r. checked_numbers (store w) = [(p, r)])"
  shows "data_json (update_all w (replicate n (p, st, h, t))) = None"
  using assms
proof (induction n arbitrary: w)
  case 0
  then show ?case by simp
next
  case (Suc n)
  let ?w = "update_status w p st h t"
  have cn: "\<exists>r. checked_numbers (store ?w) = [(p, r)]"
    using Suc.prems(2) by (auto simp: store_update_status)
  then have "length (checked_numbers (store ?w)) = 1" by auto
  then have "data_json ?w = None"
    using Suc.prems(1) by (simp add: data_json_update_status)
  with cn show ?case using Suc.IH [of ?w] by simp
qed

text \<open>
  C8. The code saves when the number of keys of \<open>checked_numbers\<close> is a multiple of 10
  after the update, not every tenth call: from a first start, any number \<open>n\<close> of calls for
  one and the same key (11, say) leaves the store with a single key, whose attempts are
  \<open>n\<close>, and \<open>data.json\<close> is never written.
\<close>

theorem repeated_key_never_flushed:
  "data_json (update_all world0 (replicate n (p, st, h, t))) = None
   \<and> attempts_of (store (update_all world0 (replicate n (p, st, h, t)))) p = int n"
proof
  show "data_json (update_all world0 (replicate n (p, st, h, t))) = None"
    by (rule single_key_no_flush) (simp_all add: world0_def DataStore_def)
  show "attempts_of (store (update_all world0 (replicate n (p, st, h, t)))) p = int n"
    by (simp add: attempts_update_all) (simp add: attempts_of_def world0_def DataStore_def)
qed

section \<open>The batch run: results and store\<close>

lemma check_loop_Cons_snd:
  "snd (check_loop e h i w (n # ns)) =
     build_result e h i n (check_number (pywhatkit e i) n) #
     snd (check_loop e h (Suc i)
            (update_status w n (check_number (pywhatkit e i) n) h (upsert_now e i)) ns)"
  by (simp add: Let_def case_prod_beta)

lemma check_loop_Cons_fst:
  "fst (check_loop e h i w (n # ns)) =
     fst (check_loop e h (Suc i)
            (update_status w n (check_number (pywhatkit e i) n) h (upsert_now e i)) ns)"
  by (simp add: Let_def case_prod_beta)

lemma check_loop_results:
  "snd (check_loop e h i w numbers) =
     map (\<lambda>(k, number). build_result e h k number (check_number (pywhatkit e k) number))
         (zip [i..<i + length numbers] numbers)"
proof (induction numbers arbitrary: i w)
  case Nil
  then show ?case by simp
next
  case (Cons n ns)
  have z: "zip [i..<i + length (n # ns)] (n # ns) = (i, n) # zip [Suc i..<Suc i + length ns] ns"
    by (simp add: upt_rec)
  show ?case
    unfolding z check_loop_Cons_snd using Cons.IH by simp
qed

lemma check_loop_length: "length (snd (check_loop e h i w numbers)) = length numbers"
  by (simp add: check_loop_results)

lemma map_zip_snd:
  "length xs = length ys \<Longrightarrow> map (\<lambda>x. f (snd x)) (zip xs ys) = map f ys"
  by (induction xs ys rule: list_induct2) simp_all

lemma check_loop_phone:
  "map phone (snd (check_loop e h i w numbers)) = map clean_num_of numbers"
  by (simp add: check_loop_results build_result_def case_prod_beta o_def map_zip_snd)

lemma check_loop_status:
  "map result_status (snd (check_loop e h i w numbers)) =
     map (\<lambda>(k, number). check_number (pywhatkit e k) number)
         (zip [i..<i + length numbers] numbers)"
  by (simp add: check_loop_results build_result_def case_prod_beta)

lemma check_loop_next_retry:
  "map result_next_retry (snd (check_loop e h i w numbers)) =
     map (\<lambda>(k, r). if result_status r = ''not_on_whatsapp''
                     then Some (strftime (retry_now e k + timedelta_hours h)) else None)
         (zip [i..<i + length numbers] (snd (check_loop e h i w numbers)))"
proof (induction numbers arbitrary: i w)
  case Nil
  then show ?case by simp
next
  case (Cons n ns)
  have u: "[i..<i + length (n # ns)] = i # [Suc i..<Suc i + length ns]"
    by (simp add: upt_rec)
  show ?case
    unfolding u check_loop_Cons_snd using Cons.IH by (simp add: build_result_def)
qed

lemma check_loop_retry_iff:
  "list_all (\<lambda>r. (result_next_retry r \<noteq> None) = (result_status r = ''not_on_whatsapp''))
            (snd (check_loop e h i w numbers))"
  by (simp add: check_loop_results list_all_iff build_result_def case_prod_beta)

lemma check_loop_keys:
  "set (map fst (checked_numbers (store (fst (check_loop e h i w numbers))))) =
     set (map fst (checked_numbers (store w))) \<union> set numbers"
proof (induction numbers arbitrary: i w)
  case Nil
  then show ?case by simp
next
  case (Cons n ns)
  have "fst ` set (AList.update n v al) = insert n (fst ` set al)"
    for v :: status_record and al
    using dom_update [of n v al] by (simp add: dom_map_of_conv_image_fst update_conv')
  then show ?case
    unfolding check_loop_Cons_fst using Cons.IH by (simp add: store_update_status)
qed

text \<open>
  C6. For a non-empty list of inputs and retry hours from 1 to 168 the handler runs the
  batch to its end and returns one result per input, in input order: the phones are the
  cleaned inputs and the statuses are what \<open>check_number\<close> gave for each item in turn,
  repeated inputs included. A check that fails (the import raises) gives the status
  \<open>error\<close> for its item and the loop goes on.
\<close>

theorem set_retry_and_check_complete:
  assumes "numbers \<noteq> []" and "1 \<le> h" and "h \<le> 168"
  shows "\<exists>w' results.
           set_retry_and_check e w user_id (Number h) numbers = (w', END_checked results h)
         \<and> length results = length numbers
         \<and> map phone results = map clean_num_of numbers
         \<and> map result_status results =
             map (\<lambda>(k, number). check_number (pywhatkit e k) number)
                 (zip [1..<1 + length numbers] numbers)
         \<and> (\<forall>x. check_number ImportRaises x = ''error'')"
proof -
  obtain w1 results where c: "check_loop e h 1 w numbers = (w1, results)"
    by (cases "check_loop e h 1 w numbers")
  then have r: "results = snd (check_loop e h 1 w numbers)" by simp
  have "\<exists>w'. set_retry_and_check e w user_id (Number h) numbers = (w', END_checked results h)"
    using assms c by (simp add: set_retry_and_check_def retry_hours_of_def)
  moreover have "length results = length numbers"
    unfolding r by (rule check_loop_length)
  moreover have "map phone results = map clean_num_of numbers"
    unfolding r by (rule check_loop_phone)
  moreover have "map result_status results =
             map (\<lambda>(k, number). check_number (pywhatkit e k) number)
                 (zip [1..<1 + length numbers] numbers)"
    unfolding r by (rule check_loop_status)
  ultimately show ?thesis
    using check_number_ImportRaises by blast
qed

theorem set_retry_and_check_complete_witness:
  "\<exists>w' results.
     set_retry_and_check env0 world0 ''42'' (Number 24)
        [''+2348012345678'', ''08012345678'', ''08012345678''] = (w', END_checked results 24)
     \<and> length results = 3
     \<and> map phone results = [''+2348012345678'', ''+2348012345678'', ''+2348012345678'']
     \<and> map result_status results = [''on_whatsapp'', ''error'', ''on_whatsapp'']"
proof -
  let ?numbers = "[''+2348012345678'', ''08012345678'', ''08012345678'']"
  have p: "map clean_num_of ?numbers
             = [''+2348012345678'', ''+2348012345678'', ''+2348012345678'']"
    by code_simp
  have s: "map (\<lambda>(k, number). check_number (pywhatkit env0 k) number)
               (zip [1..<1 + length ?numbers] ?numbers)
             = [''on_whatsapp'', ''error'', ''on_whatsapp'']"
    by code_simp
  have "?numbers \<noteq> []" and "(1::int) \<le> 24" and "(24::int) \<le> 168" by simp_all
  from set_retry_and_check_complete [OF this, of env0 world0 "''42''"]
  show ?thesis unfolding p s by (auto simp: numeral_3_eq_3)
qed

text \<open>
  C2. The loop passes the raw input to \<open>update_status\<close> (line 269) and cleans it only
  for the result (line 272). In a batch of two spellings of one number the store gets two
  keys, the raw inputs, each with one attempt, although both inputs clean to the same
  canonical number.
\<close>

theorem store_keys_are_raw_inputs:
  "map fst (checked_numbers (store (fst (set_retry_and_check env0 world0 ''42'' Skip
         [''+2348012345678'', ''08012345678'']))))
     = [''+2348012345678'', ''08012345678'']
   \<and> map (\<lambda>kv. attempts (snd kv))
         (checked_numbers (store (fst (set_retry_and_check env0 world0 ''42'' Skip
           [''+2348012345678'', ''08012345678'']))))
     = [1, 1]
   \<and> map clean_num_of [''+2348012345678'', ''08012345678'']
     = [''+2348012345678'', ''+2348012345678'']
   \<and> clean_phone_number ''08012345678'' = Some ''+2348012345678''"
  by code_simp

text \<open>
  C3 (as stated). The retry time of a result is not the upsert time plus the retry hours:
  it is computed at line 283 from a clock reading of its own and formatted to the second.
  With the upsert at 0.999999 s and the later reading at 1.000002 s, the store holds
  24 h + 0.999999 s and the result 24 h + 1 s.
\<close>

theorem next_retry_counterexample:
  "map (\<lambda>kv. next_retry (snd kv))
       (checked_numbers (store (fst (check_loop env0 24 1 world0 [''08023456789'']))))
     = [Some 86400999999]
   \<and> map result_next_retry (snd (check_loop env0 24 1 world0 [''08023456789'']))
     = [Some 86401000000]
   \<and> upsert_now env0 1 + timedelta_hours 24 = 86400999999"
  by code_simp

text \<open>
  C3 (amended). After \<open>update_status\<close> the record of the key has the given status, its
  \<open>next_retry\<close> is present exactly when the status is \<open>not_on_whatsapp\<close>, and then it is
  the upsert time plus the retry hours. In every result of a batch \<open>next_retry\<close> is
  present exactly when the status is \<open>not_on_whatsapp\<close>, and then it is the time read
  when the result is built plus the retry hours, cut to the second.
\<close>

theorem next_retry_present_iff:
  "(\<exists>r. map_of (checked_numbers (store (update_status w p st h now))) p = Some r
        \<and> status r = st
        \<and> (next_retry r \<noteq> None) = (st = ''not_on_whatsapp'')
        \<and> (st = ''not_on_whatsapp'' \<longrightarrow> next_retry r = Some (now + timedelta_hours h)))
   \<and> list_all (\<lambda>r. (result_next_retry r \<noteq> None) = (result_status r = ''not_on_whatsapp''))
               (snd (check_loop e h i w numbers))
   \<and> map result_next_retry (snd (check_loop e h i w numbers)) =
       map (\<lambda>(k, r). if result_status r = ''not_on_whatsapp''
                       then Some (strftime (retry_now e k + timedelta_hours h)) else None)
           (zip [i..<i + length numbers] (snd (check_loop e h i w numbers)))"
proof (intro conjI)
  show "\<exists>r. map_of (checked_numbers (store (update_status w p st h now))) p = Some r
        \<and> status r = st
        \<and> (next_retry r \<noteq> None) = (st = ''not_on_whatsapp'')
        \<and> (st = ''not_on_whatsapp'' \<longrightarrow> next_retry r = Some (now + timedelta_hours h))"
    by (simp add: lookup_update_status)
  show "list_all (\<lambda>r. (result_next_retry r \<noteq> None) = (result_status r = ''not_on_whatsapp''))
               (snd (check_loop e h i w numbers))"
    by (rule check_loop_retry_iff)
  show "map result_next_retry (snd (check_loop e h i w numbers)) =
       map (\<lambda>(k, r). if result_status r = ''not_on_whatsapp''
                       then Some (strftime (retry_now e k + timedelta_hours h)) else None)
           (zip [i..<i + length numbers] (snd (check_loop e h i w numbers)))"
    by (rule check_loop_next_retry)
qed

theorem next_retry_present_iff_witness:
  "(\<exists>r. map_of (checked_numbers (store
            (update_status world0 ''08023456789'' ''not_on_whatsapp'' 24 999999)))
          ''08023456789'' = Some r
        \<and> next_retry r = Some 86400999999)
   \<and> map result_status (snd (check_loop env0 24 1 world0
         [''+2348012345678'', ''08012345678'', ''08023456789'']))
       = [''on_whatsapp'', ''error'', ''not_on_whatsapp'']
   \<and> map result_next_retry (snd (check_loop env0 24 1 world0
         [''+2348012345678'', ''08012345678'', ''08023456789'']))
       = [None, None, Some 86403000000]"
proof -
  let ?ns = "[''+2348012345678'', ''08012345678'', ''08023456789'']"
  have t: "(999999::int) + timedelta_hours 24 = 86400999999"
    by (simp add: timedelta_hours_def)
  have s: "map result_status (snd (check_loop env0 24 1 world0 ?ns))
             = [''on_whatsapp'', ''error'', ''not_on_whatsapp'']"
    by code_simp
  have ev: "map (\<lambda>(k, r). if result_status r = ''not_on_whatsapp''
                       then Some (strftime (retry_now env0 k + timedelta_hours 24)) else None)
           (zip [1..<1 + length ?ns] (snd (check_loop env0 24 1 world0 ?ns)))
        = [None, None, Some 86403000000]"
    by code_simp
  from next_retry_present_iff
         [of world0 "''08023456789''" "''not_on_whatsapp''" 24 999999 env0 1 ?ns]
  show ?thesis
    unfolding ev t using s by blast
qed

section \<open>The filters\<close>

text \<open>
  C7. Each filter is a \<open>filter\<close> of the result list by the stated predicate, so order and
  repetitions are kept: \<open>on\<close>, \<open>off\<close> and \<open>retry\<close> whatever the combinator is; the two
  combinators when no simple filter is selected; the input itself when neither is set
  or when everything is exported.
\<close>

theorem apply_filter_predicates:
  "apply_filter ''on'' combo_type now results
     = filter (\<lambda>r. result_status r = ''on_whatsapp'') results
   \<and> apply_filter ''off'' combo_type now results
     = filter (\<lambda>r. result_status r = ''not_on_whatsapp'') results
   \<and> apply_filter ''retry'' combo_type now results
     = filter (\<lambda>r. case result_next_retry r of None \<Rightarrow> False | Some t \<Rightarrow> t > now) results
   \<and> (filter_type \<notin> {''on'', ''off'', ''retry''} \<longrightarrow>
        apply_filter filter_type ''both_and'' now results
          = filter (\<lambda>r. result_status r = ''not_on_whatsapp'' \<and>
                         (case result_next_retry r of None \<Rightarrow> True | Some t \<Rightarrow> t > now)) results
      \<and> apply_filter filter_type ''both_or'' now results
          = filter (\<lambda>r. result_status r = ''not_on_whatsapp'' \<or>
                         (case result_next_retry r of None \<Rightarrow> True | Some t \<Rightarrow> t > now)) results
      \<and> apply_filter filter_type '''' now results = results)
   \<and> results_to_export True filter_type combo_type now results = results"
  by (simp add: apply_filter_def results_to_export_def)

theorem apply_filter_predicates_witness:
  "map phone (apply_filter ''combo'' ''both_and'' 50000000 results0) = [''+2348023456789'']
   \<and> map phone (apply_filter ''combo'' ''both_or'' 50000000 results0)
       = [''+2348012345678'', ''+2348023456789'', ''+2348023456781'', ''+2348012345670'']
   \<and> map phone (apply_filter ''retry'' ''both_or'' 50000000 results0) = [''+2348023456789'']
   \<and> map phone (apply_filter ''off'' '''' 50000000 results0)
       = [''+2348023456789'', ''+2348023456781'']
   \<and> map phone (apply_filter ''on'' '''' 50000000 results0) = [''+2348012345678'']"
proof -
  have f: "''combo'' \<notin> {''on'', ''off'', ''retry''}" by simp
  have a: "map phone (filter (\<lambda>r. result_status r = ''not_on_whatsapp'' \<and>
             (case result_next_retry r of None \<Rightarrow> True | Some t \<Rightarrow> t > 50000000)) results0)
           = [''+2348023456789'']"
    by code_simp
  have b: "map phone (filter (\<lambda>r. result_status r = ''not_on_whatsapp'' \<or>
             (case result_next_retry r of None \<Rightarrow> True | Some t \<Rightarrow> t > 50000000)) results0)
           = [''+2348012345678'', ''+2348023456789'', ''+2348023456781'', ''+2348012345670'']"
    by code_simp
  have c: "map phone (filter (\<lambda>r. case result_next_retry r of None \<Rightarrow> False
                                   | Some t \<Rightarrow> t > 50000000) results0)
           = [''+2348023456789'']"
    by code_simp
  have d: "map phone (filter (\<lambda>r. result_status r = ''not_on_whatsapp'') results0)
           = [''+2348023456789'', ''+2348023456781'']"
    by code_simp
  have e: "map phone (filter (\<lambda>r. result_status r = ''on_whatsapp'') results0)
           = [''+2348012345678'']"
    by code_simp
  note t1 = apply_filter_predicates [of "''both_or''" 50000000 results0 "''combo''"]
  note t2 = apply_filter_predicates [of "''''" 50000000 results0 "''combo''"]
  from t1 t2 f a b c d e show ?thesis by simp
qed


section \<open>The exported table\<close>

lemma add_keys_empty: "add_keys [] (keys r) = keys r"
  by (simp add: keys_def split: option.splits)

lemma add_keys_three:
  "add_keys [''phone'', ''status'', ''check_time''] (keys r) =
     [''phone'', ''status'', ''check_time''] @
     (case result_next_retry r of None \<Rightarrow> [] | Some t \<Rightarrow> [''next_retry''])"
  by (simp add: keys_def split: option.splits)

lemma add_keys_four:
  "add_keys [''phone'', ''status'', ''check_time'', ''next_retry''] (keys r) =
     [''phone'', ''status'', ''check_time'', ''next_retry'']"
  by (simp add: keys_def split: option.splits)

lemma foldl_add_keys_four:
  "foldl add_keys [''phone'', ''status'', ''check_time'', ''next_retry''] (map keys rs) =
     [''phone'', ''status'', ''check_time'', ''next_retry'']"
  by (induction rs) (simp_all add: add_keys_four)

lemma foldl_add_keys_three:
  "foldl add_keys [''phone'', ''status'', ''check_time''] (map keys rs) =
     [''phone'', ''status'', ''check_time''] @
     (if list_ex (\<lambda>r. result_next_retry r \<noteq> None) rs then [''next_retry''] else [])"
  by (induction rs) (auto simp: add_keys_three foldl_add_keys_four split: option.splits)

lemma columns_nonempty:
  assumes "rs \<noteq> []"
  shows "columns rs = [''phone'', ''status'', ''check_time''] @
     (if list_ex (\<lambda>r. result_next_retry r \<noteq> None) rs then [''next_retry''] else [])"
proof -
  obtain r rest where rs: "rs = r # rest" using assms by (cases rs) auto
  show ?thesis
  proof (cases "result_next_retry r")
    case None
    then have "keys r = [''phone'', ''status'', ''check_time'']" by (simp add: keys_def)
    then show ?thesis using None
      by (simp add: rs columns_def add_keys_empty foldl_add_keys_three)
  next
    case (Some t)
    then have "keys r = [''phone'', ''status'', ''check_time'', ''next_retry'']"
      by (simp add: keys_def)
    then show ?thesis using Some
      by (simp add: rs columns_def add_keys_empty foldl_add_keys_four)
  qed
qed

text \<open>
  C9 (as stated). The column \<open>next_retry\<close> is not in every export: the export of a batch
  whose only number is on WhatsApp has the three columns \<open>phone\<close>, \<open>status\<close> and
  \<open>check_time\<close>.
\<close>

theorem export_columns_counterexample:
  "export_results True [] [] 0 (snd (check_loop env0 24 1 world0 [''+2348012345678'']))
     = Document \<lparr>header = [''phone'', ''status'', ''check_time''],
                  rows = [[Str ''+2348012345678'', Str ''on_whatsapp'', Time 1000000]]\<rparr>"
  by code_simp

text \<open>
  C9 (amended). The table of a non-empty result list has a header row and one row per
  result, in order. Its columns are \<open>phone\<close>, \<open>status\<close> and \<open>check_time\<close>, followed by
  \<open>next_retry\<close> exactly when some exported result has a retry time; in that column the
  field of a result without a retry time is empty.
\<close>

theorem export_columns:
  assumes "results \<noteq> []"
  shows "header (to_csv results) =
           [''phone'', ''status'', ''check_time''] @
           (if list_ex (\<lambda>r. result_next_retry r \<noteq> None) results then [''next_retry''] else [])
       \<and> rows (to_csv results) =
           map (\<lambda>r. [Str (phone r), Str (result_status r), Time (check_time r)] @
                     (if list_ex (\<lambda>r. result_next_retry r \<noteq> None) results
                      then [case result_next_retry r of None \<Rightarrow> NaN | Some t \<Rightarrow> Time t]
                      else []))
               results
       \<and> length (rows (to_csv results)) = length results
       \<and> export_results True filter_type combo_type now results = Document (to_csv results)"
  using assms
  by (simp add: to_csv_def columns_nonempty get_cell_def export_results_def
        results_to_export_def)

theorem export_columns_witness:
  "header (to_csv results0) = [''phone'', ''status'', ''check_time'', ''next_retry'']
   \<and> rows (to_csv results0) =
       [[Str ''+2348012345678'', Str ''on_whatsapp'', Time 1000000, NaN],
        [Str ''+2348023456789'', Str ''not_on_whatsapp'', Time 2000000, Time 90000000],
        [Str ''+2348023456781'', Str ''not_on_whatsapp'', Time 3000000, Time 20000000],
        [Str ''+2348012345670'', Str ''error'', Time 4000000, NaN]]"
proof -
  have ne: "results0 \<noteq> []" by (simp add: results0_def)
  have h: "[''phone'', ''status'', ''check_time''] @
           (if list_ex (\<lambda>r. result_next_retry r \<noteq> None) results0 then [''next_retry''] else [])
         = [''phone'', ''status'', ''check_time'', ''next_retry'']"
    by code_simp
  have r: "map (\<lambda>r. [Str (phone r), Str (result_status r), Time (check_time r)] @
                     (if list_ex (\<lambda>r. result_next_retry r \<noteq> None) results0
                      then [case result_next_retry r of None \<Rightarrow> NaN | Some t \<Rightarrow> Time t]
                      else []))
               results0
         = [[Str ''+2348012345678'', Str ''on_whatsapp'', Time 1000000, NaN],
            [Str ''+2348023456789'', Str ''not_on_whatsapp'', Time 2000000, Time 90000000],
            [Str ''+2348023456781'', Str ''not_on_whatsapp'', Time 3000000, Time 20000000],
            [Str ''+2348012345670'', Str ''error'', Time 4000000, NaN]]"
    by code_simp
  from export_columns [OF ne, of "[]" "[]" 0]
  show ?thesis unfolding h r by blast
qed

section \<open>Loading the store\<close>

text \<open>
  C10. Loading tolerates a missing file and nothing else: at start a missing file leaves
  both dicts empty, and \<open>load_from_file\<close> then returns the store as it was; a document
  that cannot be parsed makes the start fail with the parser's exception, and so does
  any other exception of \<open>open\<close> or \<open>json.load\<close>.
\<close>

theorem load_from_file_only_missing_file:
  "startup (Inl FileNotFoundError) = Inr \<lparr>checked_numbers = [], user_data = []\<rparr>
   \<and> load_from_file self (Inl FileNotFoundError) = Inr self
   \<and> startup (Inl JSONDecodeError) = Inl JSONDecodeError
   \<and> (e \<noteq> FileNotFoundError \<longrightarrow> load_from_file self (Inl e) = Inl e)"
  by (simp add: startup_def load_from_file_def DataStore_def)

theorem load_from_file_only_missing_file_witness:
  "load_from_file \<lparr>checked_numbers = [], user_data = []\<rparr> (Inl JSONDecodeError)
     = Inl JSONDecodeError
   \<and> load_from_file \<lparr>checked_numbers = [], user_data = []\<rparr> (Inl PermissionError)
     = Inl PermissionError"
  using load_from_file_only_missing_file
          [of "\<lparr>checked_numbers = [], user_data = []\<rparr>" JSONDecodeError]
        load_from_file_only_missing_file
          [of "\<lparr>checked_numbers = [], user_data = []\<rparr>" PermissionError]
  by simp

end
